theory Spec2Isabelle
  imports Complex_Main "HOL-Library.Word"
begin

section \<open>The analysis page of the fake job detector (frontend/src/app/analyze/page.js)\<close>

text \<open>
  The page is one React component, \<^verbatim>\<open>AnalyzePage\<close>. Its \<^verbatim>\<open>useState\<close> cells are the
  fields of the record \<open>session\<close>. Everything the handlers do to the world outside the
  component is logged in further fields of the same record: the backend requests issued
  (\<open>requests\<close>), the running \<^verbatim>\<open>setInterval\<close> timers (\<open>timers\<close>), the calls of
  \<^verbatim>\<open>alert\<close> and \<^verbatim>\<open>console.error\<close>, the files handed to the browser for
  download, and the continuations that wait for a response or for a \<^verbatim>\<open>setTimeout\<close>
  (\<open>pending\<close>). An \<^verbatim>\<open>async\<close> handler is split at its \<^verbatim>\<open>await\<close>: the part that runs
  at once keeps the handler's name, the part after the response is \<open>_reply\<close>, the
  \<^verbatim>\<open>setTimeout\<close> callback is \<open>_timeout\<close>.

  \<^verbatim>\<open>scanProgress\<close> is a JavaScript number; it is modelled as a rational, and the value
  of \<^verbatim>\<open>Math.random()\<close> is an argument \<open>r\<close> with \<open>0 \<le> r < 1\<close>. The credential
  \<^verbatim>\<open>token\<close> comes from \<^verbatim>\<open>useAuth()\<close>, which is not part of these sources: it is a
  field that only the event \<open>AuthChange\<close> writes.
\<close>

subsection \<open>Data\<close>

text \<open>
  Of the payloads the backend answers with, the records keep the fields that the handlers
  or the conditions of the JSX read; the fields that are only displayed (risk factors,
  detected language, the second model's result, the time of analysis, the rows of a bulk
  report) are left out.

  A JavaScript string is a sequence of 16-bit code units. The two texts that the page
  trims, the job text and the URL, are lists of such units; \<open>js\<close> turns a literal of
  one-byte characters into one. The other strings (file names, key names, messages,
  company names, the token) are only compared or tested for emptiness and stay
  \<open>string\<close>s.
\<close>

type_synonym js_string = "16 word list"

definition js :: "string \<Rightarrow> js_string" where
  "js t = map (\<lambda>c. of_nat (of_char c)) t"

datatype phase = Input | Scanning | Verdict | BulkResults

datatype input_mode = ModeText | ModeUrl | ModeCsv | ModeImage

datatype feedback = Agree | Disagree

datatype js_file = File (file_name: string) (file_body: string)

record verdict_result =
  prediction_id :: "nat option"
  prediction :: string
  confidence :: int
  scraped_title :: "string option"
  scraped_company :: "string option"

record bulk_report =
  total_analyzed :: nat
  total_real :: nat
  total_fake :: nat

record company_verification =
  verified :: bool
  match_type :: string
  match_confidence :: int

text \<open>
  What a \<^verbatim>\<open>fetch\<close> followed by \<^verbatim>\<open>res.json()\<close> can give: \<open>Threw m\<close>, the request
  itself rejects with message \<open>m\<close>; \<open>BadJson ok m\<close>, a response with \<^verbatim>\<open>res.ok = ok\<close>
  whose body is not JSON, so that \<^verbatim>\<open>res.json()\<close> rejects with \<open>m\<close>; \<open>ReplyNull ok\<close>,
  a response with \<^verbatim>\<open>res.ok = ok\<close> whose body is the JSON value \<^verbatim>\<open>null\<close>;
  \<open>Reply ok detail d\<close>, a response with \<^verbatim>\<open>res.ok = ok\<close> and the JSON object \<open>d\<close>,
  whose field \<^verbatim>\<open>detail\<close> is \<open>detail\<close>. The handlers store what \<^verbatim>\<open>res.json()\<close> gives
  without looking at it, so the cells \<^verbatim>\<open>result\<close>, \<^verbatim>\<open>bulkResults\<close> and
  \<^verbatim>\<open>companyVerify\<close> can receive \<^verbatim>\<open>null\<close> from a successful answer.
\<close>

datatype 'a reply =
  Threw string | BadJson bool string | ReplyNull bool | Reply bool "string option" 'a

text \<open>The download reads the body with \<^verbatim>\<open>res.blob()\<close> and never parses it:
  \<open>Blob ok body\<close> is a response with \<^verbatim>\<open>res.ok = ok\<close>. Feedback and flagging never read
  the body at all.\<close>

datatype blob_reply = BlobThrew | Blob bool string

datatype status_reply = StatusThrew string | Status bool

datatype request =
    Predict js_string "string option"
  | PredictUrl js_string "string option"
  | PredictBulk js_file "string option"
  | PredictImage js_file "string option"
  | PredictBulkDownload js_file "string option"
  | VerifyCompany string
  | Feedback nat feedback "string option"
  | Flag "nat option" "string option"
  | MyPredictions "string option"

text \<open>
  A continuation holds what the closure captured when the handler ran: the id of its
  interval timer and the token of that render; a \<^verbatim>\<open>setTimeout\<close> callback holds the
  \<^verbatim>\<open>data\<close> it is going to store, \<open>None\<close> for \<^verbatim>\<open>null\<close>.
\<close>

datatype continuation =
    AnalyzeAwait nat "string option"
  | BulkAwait nat
  | ImageAwait nat "string option"
  | AnalyzeTimeout "verdict_result option" "string option"
  | BulkTimeout "bulk_report option"
  | ImageTimeout "verdict_result option" "string option"
  | DownloadAwait
  | VerifyAwait
  | FeedbackAwait feedback
  | FlagAwait
  | HistoryAwait
  | PreviewAwait

record session =
  inputMode :: input_mode
  jobText :: js_string
  urlInput :: js_string
  loading :: bool
  phase :: phase
  result :: "verdict_result option"
  scanProgress :: rat
  myHistory :: "string list"
  feedbackGiven :: "feedback option"
  companyVerify :: "company_verification option"
  companyLoading :: bool
  csvFile :: "js_file option"
  bulkResults :: "bulk_report option"
  imageFile :: "js_file option"
  imagePreview :: "string option"
  token :: "string option"
  timers :: "(nat \<times> rat) list"
  next_timer :: nat
  requests :: "request list"
  pending :: "continuation list"
  alerts :: "string list"
  console :: "string list"
  uncaught :: "string list"
  downloads :: "(string \<times> string) list"

subsection \<open>JavaScript truthiness and \<^verbatim>\<open>trim\<close>\<close>

text \<open>A string is truthy when it is neither null nor empty; a number when it is neither
  null nor 0; an object when it is not null.\<close>

definition truthy :: "string option \<Rightarrow> bool" where
  "truthy v = (case v of None \<Rightarrow> False | Some t \<Rightarrow> t \<noteq> [])"

definition truthy_id :: "nat option \<Rightarrow> bool" where
  "truthy_id v = (case v of None \<Rightarrow> False | Some n \<Rightarrow> n \<noteq> 0)"

text \<open>
  \<^verbatim>\<open>String.prototype.trim\<close> strips the code units that ECMAScript calls WhiteSpace or
  LineTerminator: tab, line feed, vertical tab, form feed, carriage return, space,
  no-break space (U+00A0), U+1680, U+2000 to U+200A, the line and paragraph separators
  (U+2028, U+2029), U+202F, U+205F, U+3000 and the byte order mark (U+FEFF).
\<close>

definition is_ws :: "16 word \<Rightarrow> bool" where
  "is_ws u =
     (u \<in> set [0x0009, 0x000A, 0x000B, 0x000C, 0x000D, 0x0020, 0x00A0, 0x1680, 0x2028,
               0x2029, 0x202F, 0x205F, 0x3000, 0xFEFF]
      \<or> (0x2000 \<le> u \<and> u \<le> 0x200A))"

definition trim :: "js_string \<Rightarrow> js_string" where
  "trim t = rev (dropWhile is_ws (rev (dropWhile is_ws t)))"

text \<open>\<^verbatim>\<open>f.name.endsWith('.csv')\<close>\<close>

definition endsWith :: "string \<Rightarrow> string \<Rightarrow> bool" where
  "endsWith t suffix = (length suffix \<le> length t \<and> drop (length t - length suffix) t = suffix)"

subsection \<open>Timers and the pending list\<close>

definition setInterval :: "rat \<Rightarrow> session \<Rightarrow> session" where
  "setInterval k s = s\<lparr>timers := timers s @ [(next_timer s, k)], next_timer := Suc (next_timer s)\<rparr>"

definition clearInterval :: "nat \<Rightarrow> session \<Rightarrow> session" where
  "clearInterval tid s = s\<lparr>timers := filter (\<lambda>t. fst t \<noteq> tid) (timers s)\<rparr>"

definition fetch :: "request \<Rightarrow> continuation \<Rightarrow> session \<Rightarrow> session" where
  "fetch rq c s = s\<lparr>requests := requests s @ [rq], pending := pending s @ [c]\<rparr>"

definition setTimeout :: "continuation \<Rightarrow> session \<Rightarrow> session" where
  "setTimeout c s = s\<lparr>pending := pending s @ [c]\<rparr>"

definition alert :: "string \<Rightarrow> session \<Rightarrow> session" where
  "alert m s = s\<lparr>alerts := alerts s @ [m]\<rparr>"

definition console_error :: "string \<Rightarrow> session \<Rightarrow> session" where
  "console_error m s = s\<lparr>console := console s @ [m]\<rparr>"

text \<open>
  Reading a property of \<^verbatim>\<open>null\<close> throws a TypeError; the message is the engine's (here
  V8's wording), the code only passes it on. Thrown inside a \<^verbatim>\<open>try\<close> it reaches the
  \<^verbatim>\<open>catch\<close> block; thrown in a \<^verbatim>\<open>setTimeout\<close> callback nothing catches it, the
  callback ends there and the state writes it made before stand.
\<close>

definition null_property :: "string \<Rightarrow> string" where
  "null_property p =
     ''Cannot read properties of null (reading '' @ [CHR 0x27] @ p @ [CHR 0x27] @ '')''"

definition throw_uncaught :: "string \<Rightarrow> session \<Rightarrow> session" where
  "throw_uncaught m s = s\<lparr>uncaught := uncaught s @ [m]\<rparr>"

definition remove_at :: "nat \<Rightarrow> 'a list \<Rightarrow> 'a list" where
  "remove_at k xs = take k xs @ drop (Suc k) xs"

subsection \<open>The handlers\<close>

text \<open>\<^verbatim>\<open>fetchMyHistory\<close> (lines 61-68); the token is the one of the render that made
  the closure.\<close>

definition fetchMyHistory :: "string option \<Rightarrow> session \<Rightarrow> session" where
  "fetchMyHistory tok s = fetch (MyPredictions tok) HistoryAwait s"

definition fetchMyHistory_reply :: "string list option reply \<Rightarrow> session \<Rightarrow> session" where
  "fetchMyHistory_reply rep s =
     (case rep of
        Threw m \<Rightarrow> console_error ''Failed to fetch history:'' s
      | BadJson ok m \<Rightarrow> if ok then console_error ''Failed to fetch history:'' s else s
      | ReplyNull ok \<Rightarrow> if ok then console_error ''Failed to fetch history:'' s else s
      | Reply ok detail d \<Rightarrow>
          if ok then s\<lparr>myHistory := (case d of None \<Rightarrow> [] | Some ps \<Rightarrow> ps)\<rparr> else s)"

text \<open>\<^verbatim>\<open>verifyCompany\<close> (lines 192-204).\<close>

definition verifyCompany :: "string \<Rightarrow> session \<Rightarrow> session" where
  "verifyCompany name s =
     (if name = [] then s
      else fetch (VerifyCompany name) VerifyAwait (s\<lparr>companyLoading := True\<rparr>))"

definition verifyCompany_reply :: "company_verification reply \<Rightarrow> session \<Rightarrow> session" where
  "verifyCompany_reply rep s =
     (let s1 = (case rep of
                  Threw m \<Rightarrow> console_error ''Company verification failed:'' s
                | BadJson ok m \<Rightarrow>
                    if ok then console_error ''Company verification failed:'' s else s
                | ReplyNull ok \<Rightarrow> if ok then s\<lparr>companyVerify := None\<rparr> else s
                | Reply ok detail d \<Rightarrow> if ok then s\<lparr>companyVerify := Some d\<rparr> else s)
      in s1\<lparr>companyLoading := False\<rparr>)"

text \<open>The updater that every interval timer passes to \<^verbatim>\<open>setScanProgress\<close> (lines 79-81,
  113-115, 146-148); \<open>k\<close> is 12, 8 or 10 and \<open>r\<close> the value of \<^verbatim>\<open>Math.random()\<close>.\<close>

definition tick :: "nat \<Rightarrow> rat \<Rightarrow> rat \<Rightarrow> session \<Rightarrow> session" where
  "tick scanInterval k r s =
     (if scanProgress s \<ge> 95 then (clearInterval scanInterval s)\<lparr>scanProgress := 95\<rparr>
      else s\<lparr>scanProgress := scanProgress s + r * k\<rparr>)"

text \<open>\<^verbatim>\<open>data.detail || 'Analysis failed'\<close>\<close>

definition detail_or :: "string option \<Rightarrow> string \<Rightarrow> string" where
  "detail_or detail dflt =
     (case detail of None \<Rightarrow> dflt | Some d \<Rightarrow> if d = [] then dflt else d)"

text \<open>The \<^verbatim>\<open>catch\<close> block, the same text in the three submissions (lines 101-104,
  134-137, 167-170).\<close>

definition catch_block :: "nat \<Rightarrow> string \<Rightarrow> session \<Rightarrow> session" where
  "catch_block scanInterval m s =
     alert m ((clearInterval scanInterval s)\<lparr>loading := False, phase := Input\<rparr>)"

text \<open>The \<^verbatim>\<open>Authorization\<close> header of the two submissions that work without a
  credential is set only when the token is truthy.\<close>

definition bearer :: "string option \<Rightarrow> string option" where
  "bearer tok = (if truthy tok then tok else None)"

text \<open>\<^verbatim>\<open>analyze\<close> (lines 71-105).\<close>

definition analyze :: "session \<Rightarrow> session" where
  "analyze s =
     (let isUrl = (inputMode s = ModeUrl);
          input = (if isUrl then trim (urlInput s) else trim (jobText s))
      in if input = [] then s
         else
           let s1 = s\<lparr>loading := True, phase := Scanning, scanProgress := 0,
                      result := None, feedbackGiven := None, companyVerify := None\<rparr>;
               scanInterval = next_timer s1;
               s2 = setInterval 12 s1
           in fetch (if isUrl then PredictUrl input (bearer (token s))
                     else Predict input (bearer (token s)))
                (AnalyzeAwait scanInterval (token s)) s2)"

definition analyze_reply ::
  "nat \<Rightarrow> string option \<Rightarrow> verdict_result reply \<Rightarrow> session \<Rightarrow> session" where
  "analyze_reply scanInterval tok rep s =
     (case rep of
        Threw m \<Rightarrow> catch_block scanInterval m s
      | BadJson ok m \<Rightarrow> catch_block scanInterval m s
      | ReplyNull ok \<Rightarrow>
          if \<not> ok then catch_block scanInterval (null_property ''detail'') s
          else setTimeout (AnalyzeTimeout None tok)
                 ((clearInterval scanInterval s)\<lparr>scanProgress := 100\<rparr>)
      | Reply ok detail d \<Rightarrow>
          if \<not> ok then catch_block scanInterval (detail_or detail ''Analysis failed'') s
          else setTimeout (AnalyzeTimeout (Some d) tok)
                 ((clearInterval scanInterval s)\<lparr>scanProgress := 100\<rparr>))"

definition analyze_timeout ::
  "verdict_result option \<Rightarrow> string option \<Rightarrow> session \<Rightarrow> session" where
  "analyze_timeout d tok s =
     (let s1 = s\<lparr>result := d, phase := Verdict, loading := False\<rparr>;
          s2 = (if truthy tok then fetchMyHistory tok s1 else s1)
      in case d of
           None \<Rightarrow> throw_uncaught (null_property ''scraped_company'') s2
         | Some v \<Rightarrow>
             (case scraped_company v of
                None \<Rightarrow> s2
              | Some c \<Rightarrow> if c = [] then s2 else verifyCompany c s2))"

text \<open>\<^verbatim>\<open>analyzeBulk\<close> (lines 108-138).\<close>

definition analyzeBulk :: "session \<Rightarrow> session" where
  "analyzeBulk s =
     (case csvFile s of
        None \<Rightarrow> s
      | Some f \<Rightarrow>
          if \<not> truthy (token s) then s
          else
            let s1 = s\<lparr>loading := True, phase := Scanning, scanProgress := 0,
                       bulkResults := None\<rparr>;
                scanInterval = next_timer s1;
                s2 = setInterval 8 s1
            in fetch (PredictBulk f (token s)) (BulkAwait scanInterval) s2)"

definition analyzeBulk_reply :: "nat \<Rightarrow> bulk_report reply \<Rightarrow> session \<Rightarrow> session" where
  "analyzeBulk_reply scanInterval rep s =
     (case rep of
        Threw m \<Rightarrow> catch_block scanInterval m s
      | BadJson ok m \<Rightarrow> catch_block scanInterval m s
      | ReplyNull ok \<Rightarrow>
          if \<not> ok then catch_block scanInterval (null_property ''detail'') s
          else setTimeout (BulkTimeout None)
                 ((clearInterval scanInterval s)\<lparr>scanProgress := 100\<rparr>)
      | Reply ok detail d \<Rightarrow>
          if \<not> ok then catch_block scanInterval (detail_or detail ''Bulk analysis failed'') s
          else setTimeout (BulkTimeout (Some d))
                 ((clearInterval scanInterval s)\<lparr>scanProgress := 100\<rparr>))"

definition analyzeBulk_timeout :: "bulk_report option \<Rightarrow> session \<Rightarrow> session" where
  "analyzeBulk_timeout d s = s\<lparr>bulkResults := d, phase := BulkResults, loading := False\<rparr>"

text \<open>\<^verbatim>\<open>analyzeImage\<close> (lines 141-171).\<close>

definition analyzeImage :: "session \<Rightarrow> session" where
  "analyzeImage s =
     (case imageFile s of
        None \<Rightarrow> s
      | Some f \<Rightarrow>
          let s1 = s\<lparr>loading := True, phase := Scanning, scanProgress := 0,
                     result := None, feedbackGiven := None, companyVerify := None\<rparr>;
              scanInterval = next_timer s1;
              s2 = setInterval 10 s1
          in fetch (PredictImage f (bearer (token s))) (ImageAwait scanInterval (token s)) s2)"

definition analyzeImage_reply ::
  "nat \<Rightarrow> string option \<Rightarrow> verdict_result reply \<Rightarrow> session \<Rightarrow> session" where
  "analyzeImage_reply scanInterval tok rep s =
     (case rep of
        Threw m \<Rightarrow> catch_block scanInterval m s
      | BadJson ok m \<Rightarrow> catch_block scanInterval m s
      | ReplyNull ok \<Rightarrow>
          if \<not> ok then catch_block scanInterval (null_property ''detail'') s
          else setTimeout (ImageTimeout None tok)
                 ((clearInterval scanInterval s)\<lparr>scanProgress := 100\<rparr>)
      | Reply ok detail d \<Rightarrow>
          if \<not> ok then catch_block scanInterval (detail_or detail ''Image analysis failed'') s
          else setTimeout (ImageTimeout (Some d) tok)
                 ((clearInterval scanInterval s)\<lparr>scanProgress := 100\<rparr>))"

definition analyzeImage_timeout ::
  "verdict_result option \<Rightarrow> string option \<Rightarrow> session \<Rightarrow> session" where
  "analyzeImage_timeout d tok s =
     (let s1 = s\<lparr>result := d, phase := Verdict, loading := False\<rparr>
      in if truthy tok then fetchMyHistory tok s1 else s1)"

text \<open>\<^verbatim>\<open>downloadBulkCsv\<close> (lines 173-189).\<close>

definition downloadBulkCsv :: "session \<Rightarrow> session" where
  "downloadBulkCsv s =
     (case csvFile s of
        None \<Rightarrow> s
      | Some f \<Rightarrow>
          if \<not> truthy (token s) then s
          else fetch (PredictBulkDownload f (token s)) DownloadAwait s)"

definition downloadBulkCsv_reply :: "blob_reply \<Rightarrow> session \<Rightarrow> session" where
  "downloadBulkCsv_reply rep s =
     (case rep of
        BlobThrew \<Rightarrow> alert ''Download failed'' s
      | Blob ok body \<Rightarrow> s\<lparr>downloads := downloads s @ [(''bulk_results.csv'', body)]\<rparr>)"

text \<open>\<^verbatim>\<open>submitFeedback\<close> (lines 207-217).\<close>

definition submitFeedback :: "feedback \<Rightarrow> session \<Rightarrow> session" where
  "submitFeedback fb s =
     (case result s of
        None \<Rightarrow> s
      | Some res \<Rightarrow>
          (case prediction_id res of
             None \<Rightarrow> s
           | Some pid \<Rightarrow>
               if pid = 0 \<or> \<not> truthy (token s) then s
               else fetch (Feedback pid fb (token s)) (FeedbackAwait fb) s))"

definition submitFeedback_reply :: "feedback \<Rightarrow> status_reply \<Rightarrow> session \<Rightarrow> session" where
  "submitFeedback_reply fb rep s =
     (case rep of
        StatusThrew m \<Rightarrow> console_error ''Feedback failed:'' s
      | Status ok \<Rightarrow> if ok then s\<lparr>feedbackGiven := Some fb\<rparr> else s)"

text \<open>The handler written inline on the flag button (lines 700-707).\<close>

definition flag :: "session \<Rightarrow> session" where
  "flag s =
     (case result s of
        None \<Rightarrow> alert ''Failed to flag.'' s
      | Some res \<Rightarrow> fetch (Flag (prediction_id res) (token s)) FlagAwait s)"

definition flag_reply :: "status_reply \<Rightarrow> session \<Rightarrow> session" where
  "flag_reply rep s =
     (case rep of
        StatusThrew m \<Rightarrow> alert ''Failed to flag.'' s
      | Status ok \<Rightarrow> alert ''Post flagged for review.'' s)"

text \<open>\<^verbatim>\<open>reset\<close> (lines 219-223).\<close>

definition reset :: "session \<Rightarrow> session" where
  "reset s = s\<lparr>phase := Input, result := None, bulkResults := None,
                jobText := [], urlInput := [], csvFile := None, imageFile := None,
                imagePreview := None,
                scanProgress := 0, feedbackGiven := None, companyVerify := None\<rparr>"

subsection \<open>What the rendered page lets happen\<close>

text \<open>
  The JSX renders one view per phase, and a control can fire only while it is rendered
  and not \<^verbatim>\<open>disabled\<close>. \<open>handle\<close> follows the JSX control by control: an event whose
  control is not rendered, or is disabled, leaves the session as it is. The cells
  \<^verbatim>\<open>showHistory\<close> and \<^verbatim>\<open>dragOver\<close> only change how the page looks and are left out.
  The events from \<open>TimerTick\<close> on are the event loop's: a tick of a running timer, the
  arrival of the answer that the \<open>i\<close>-th pending continuation waits for, the end of a
  \<^verbatim>\<open>setTimeout\<close> delay, a new token from the authentication context.
\<close>

definition SAMPLE_TEXTS :: "(string \<times> js_string) list" where
  "SAMPLE_TEXTS =
     [(''SUSPICIOUS POST'', js ''EARN $5000 WEEKLY from home! No experience needed! Send your bank details and SSN to get started. Pay $200 processing fee to secure your position. Limited spots - act now before it's too late! Contact us on WhatsApp immediately.''),
      (''LEGITIMATE POST'', js ''We are looking for a Senior Software Engineer with 5+ years of experience in Python and React. You will work with a team of 12 engineers building our cloud infrastructure platform. Requirements: BS in Computer Science, experience with AWS, strong communication skills. Benefits include health insurance, 401k matching, and 20 days PTO. Apply through our careers page with your resume.'')]"

datatype event =
    ClickTab input_mode
  | ClickSample nat
  | ChangeJobText js_string
  | ClickRunAnalysis
  | ChangeUrl js_string
  | KeyDownUrl string
  | ClickScanUrl
  | DropCsv "js_file option"
  | ChangeCsv "js_file option"
  | ClickAnalyzeBulk
  | ChangeImage "js_file option"
  | ClickAnalyzeImage
  | KeyDownCompany string string
  | ClickVerify string
  | ClickFeedback feedback
  | ClickReset
  | ClickFlag
  | ClickDownload
  | TimerTick nat rat
  | AnalyzeReplied nat "verdict_result reply"
  | BulkReplied nat "bulk_report reply"
  | ImageReplied nat "verdict_result reply"
  | TimeoutFired nat
  | DownloadReplied nat blob_reply
  | VerifyReplied nat "company_verification reply"
  | FeedbackReplied nat status_reply
  | FlagReplied nat status_reply
  | HistoryReplied nat "string list option reply"
  | PreviewLoaded nat string
  | AuthChange "string option"

text \<open>\<^verbatim>\<open>phase === 'verdict' && result && (...)\<close> and
  \<^verbatim>\<open>phase === 'bulk-results' && bulkResults && (...)\<close>: the payload a view renders, if it
  is rendered.\<close>

definition verdict_view :: "session \<Rightarrow> verdict_result option" where
  "verdict_view s = (if phase s = Verdict then result s else None)"

definition bulk_view :: "session \<Rightarrow> bulk_report option" where
  "bulk_view s = (if phase s = BulkResults then bulkResults s else None)"

text \<open>The \<open>i\<close>-th pending continuation, taken off the list.\<close>

definition take_pending :: "nat \<Rightarrow> session \<Rightarrow> (continuation \<times> session) option" where
  "take_pending i s =
     (if i < length (pending s)
      then Some (pending s ! i, s\<lparr>pending := remove_at i (pending s)\<rparr>)
      else None)"

fun handle :: "event \<Rightarrow> session \<Rightarrow> session" where
  "handle (ClickTab m) s = (if phase s = Input then s\<lparr>inputMode := m\<rparr> else s)"
| "handle (ClickSample i) s =
     (if phase s = Input \<and> inputMode s = ModeText \<and> i < length SAMPLE_TEXTS
      then s\<lparr>jobText := snd (SAMPLE_TEXTS ! i)\<rparr> else s)"
| "handle (ChangeJobText v) s =
     (if phase s = Input \<and> inputMode s = ModeText then s\<lparr>jobText := v\<rparr> else s)"
| "handle ClickRunAnalysis s =
     (if phase s = Input \<and> inputMode s = ModeText \<and> \<not> (trim (jobText s) = [] \<or> loading s)
      then analyze s else s)"
| "handle (ChangeUrl v) s =
     (if phase s = Input \<and> inputMode s = ModeUrl then s\<lparr>urlInput := v\<rparr> else s)"
| "handle (KeyDownUrl key) s =
     (if phase s = Input \<and> inputMode s = ModeUrl \<and> key = ''Enter'' then analyze s else s)"
| "handle ClickScanUrl s =
     (if phase s = Input \<and> inputMode s = ModeUrl \<and> \<not> (trim (urlInput s) = [] \<or> loading s)
      then analyze s else s)"
| "handle (DropCsv f) s =
     (if phase s = Input \<and> inputMode s = ModeCsv
      then (case f of
              None \<Rightarrow> s
            | Some fl \<Rightarrow> if endsWith (file_name fl) ''.csv'' then s\<lparr>csvFile := Some fl\<rparr> else s)
      else s)"
| "handle (ChangeCsv f) s =
     (if phase s = Input \<and> inputMode s = ModeCsv
      then (case f of None \<Rightarrow> s | Some fl \<Rightarrow> s\<lparr>csvFile := Some fl\<rparr>)
      else s)"
| "handle ClickAnalyzeBulk s =
     (if phase s = Input \<and> inputMode s = ModeCsv \<and> csvFile s \<noteq> None
         \<and> \<not> (loading s \<or> \<not> truthy (token s))
      then analyzeBulk s else s)"
| "handle (ChangeImage f) s =
     (if phase s = Input \<and> inputMode s = ModeImage
      then (case f of
              None \<Rightarrow> s
            | Some fl \<Rightarrow> s\<lparr>imageFile := Some fl, pending := pending s @ [PreviewAwait]\<rparr>)
      else s)"
| "handle ClickAnalyzeImage s =
     (if phase s = Input \<and> inputMode s = ModeImage \<and> imageFile s \<noteq> None \<and> \<not> loading s
      then analyzeImage s else s)"
| "handle (KeyDownCompany key v) s =
     (case verdict_view s of
        None \<Rightarrow> s
      | Some res \<Rightarrow>
          if \<not> truthy (scraped_company res) \<and> key = ''Enter'' then verifyCompany v s else s)"
| "handle (ClickVerify v) s =
     (case verdict_view s of
        None \<Rightarrow> s
      | Some res \<Rightarrow>
          if \<not> truthy (scraped_company res) \<and> \<not> companyLoading s \<and> v \<noteq> []
          then verifyCompany v s else s)"
| "handle (ClickFeedback fb) s =
     (case verdict_view s of
        None \<Rightarrow> s
      | Some res \<Rightarrow>
          if truthy (token s) \<and> feedbackGiven s = None then submitFeedback fb s else s)"
| "handle ClickReset s =
     (if verdict_view s \<noteq> None \<or> bulk_view s \<noteq> None then reset s else s)"
| "handle ClickFlag s =
     (case verdict_view s of
        None \<Rightarrow> s
      | Some res \<Rightarrow> if prediction res = ''Fake'' \<and> truthy (token s) then flag s else s)"
| "handle ClickDownload s = (if bulk_view s \<noteq> None then downloadBulkCsv s else s)"
| "handle (TimerTick scanInterval r) s =
     (case map_of (timers s) scanInterval of
        None \<Rightarrow> s
      | Some k \<Rightarrow> if 0 \<le> r \<and> r < 1 then tick scanInterval k r s else s)"
| "handle (AnalyzeReplied i rep) s =
     (case take_pending i s of
        Some (AnalyzeAwait scanInterval tok, s1) \<Rightarrow> analyze_reply scanInterval tok rep s1
      | _ \<Rightarrow> s)"
| "handle (BulkReplied i rep) s =
     (case take_pending i s of
        Some (BulkAwait scanInterval, s1) \<Rightarrow> analyzeBulk_reply scanInterval rep s1
      | _ \<Rightarrow> s)"
| "handle (ImageReplied i rep) s =
     (case take_pending i s of
        Some (ImageAwait scanInterval tok, s1) \<Rightarrow> analyzeImage_reply scanInterval tok rep s1
      | _ \<Rightarrow> s)"
| "handle (TimeoutFired i) s =
     (case take_pending i s of
        Some (AnalyzeTimeout d tok, s1) \<Rightarrow> analyze_timeout d tok s1
      | Some (BulkTimeout d, s1) \<Rightarrow> analyzeBulk_timeout d s1
      | Some (ImageTimeout d tok, s1) \<Rightarrow> analyzeImage_timeout d tok s1
      | _ \<Rightarrow> s)"
| "handle (DownloadReplied i rep) s =
     (case take_pending i s of
        Some (DownloadAwait, s1) \<Rightarrow> downloadBulkCsv_reply rep s1
      | _ \<Rightarrow> s)"
| "handle (VerifyReplied i rep) s =
     (case take_pending i s of
        Some (VerifyAwait, s1) \<Rightarrow> verifyCompany_reply rep s1
      | _ \<Rightarrow> s)"
| "handle (FeedbackReplied i rep) s =
     (case take_pending i s of
        Some (FeedbackAwait fb, s1) \<Rightarrow> submitFeedback_reply fb rep s1
      | _ \<Rightarrow> s)"
| "handle (FlagReplied i rep) s =
     (case take_pending i s of
        Some (FlagAwait, s1) \<Rightarrow> flag_reply rep s1
      | _ \<Rightarrow> s)"
| "handle (HistoryReplied i rep) s =
     (case take_pending i s of
        Some (HistoryAwait, s1) \<Rightarrow> fetchMyHistory_reply rep s1
      | _ \<Rightarrow> s)"
| "handle (PreviewLoaded i url) s =
     (case take_pending i s of
        Some (PreviewAwait, s1) \<Rightarrow> s1\<lparr>imagePreview := Some url\<rparr>
      | _ \<Rightarrow> s)"
| "handle (AuthChange tok) s =
     (if tok = token s then s
      else let s1 = s\<lparr>token := tok\<rparr> in if truthy tok then fetchMyHistory tok s1 else s1)"

text \<open>The \<^verbatim>\<open>useState\<close> initial values, and the effect
  \<^verbatim>\<open>useEffect(() => { if (token) fetchMyHistory(); }, [token])\<close> of the first render.\<close>

definition initial :: "string option \<Rightarrow> session" where
  "initial tok =
     \<lparr>inputMode = ModeText, jobText = [], urlInput = [], loading = False, phase = Input,
      result = None, scanProgress = 0, myHistory = [], feedbackGiven = None,
      companyVerify = None, companyLoading = False, csvFile = None, bulkResults = None,
      imageFile = None, imagePreview = None, token = tok, timers = [], next_timer = 0,
      requests = [], pending = [], alerts = [], console = [], uncaught = [],
      downloads = []\<rparr>"

definition mount :: "string option \<Rightarrow> session" where
  "mount tok = (if truthy tok then fetchMyHistory tok (initial tok) else initial tok)"

text \<open>A session is reachable when a sequence of events leads to it from the first render.\<close>

fun run :: "event list \<Rightarrow> session \<Rightarrow> session" where
  "run [] s = s"
| "run (e # es) s = run es (handle e s)"

subsection \<open>Notions used to state the properties\<close>

text \<open>The requests that a step from \<open>s\<close> to \<open>s'\<close> has issued: the log only grows.\<close>

definition issued :: "session \<Rightarrow> session \<Rightarrow> request list" where
  "issued s s' = drop (length (requests s)) (requests s')"

fun is_verify :: "request \<Rightarrow> bool" where
  "is_verify (VerifyCompany name) = True"
| "is_verify rq = False"

fun is_feedback :: "request \<Rightarrow> bool" where
  "is_feedback (Feedback pid fb tok) = True"
| "is_feedback rq = False"

text \<open>The four requests that a submission posts.\<close>

fun is_predict :: "request \<Rightarrow> bool" where
  "is_predict (Predict input tok) = True"
| "is_predict (PredictUrl input tok) = True"
| "is_predict (PredictBulk f tok) = True"
| "is_predict (PredictImage f tok) = True"
| "is_predict rq = False"

text \<open>The typed text, the typed URL and the two selected files.\<close>

definition pendingInput ::
  "session \<Rightarrow> js_string \<times> js_string \<times> js_file option \<times> js_file option" where
  "pendingInput s = (jobText s, urlInput s, csvFile s, imageFile s)"

text \<open>An answer that sends a submission into its \<^verbatim>\<open>catch\<close> block, and the message of
  the error caught there.\<close>

fun failed :: "'a reply \<Rightarrow> bool" where
  "failed (Threw m) = True"
| "failed (BadJson ok m) = True"
| "failed (ReplyNull ok) = (\<not> ok)"
| "failed (Reply ok detail d) = (\<not> ok)"

fun failure_message :: "string \<Rightarrow> 'a reply \<Rightarrow> string" where
  "failure_message dflt (Threw m) = m"
| "failure_message dflt (BadJson ok m) = m"
| "failure_message dflt (ReplyNull ok) = null_property ''detail''"
| "failure_message dflt (Reply ok detail d) = detail_or detail dflt"

text \<open>The events that start a submission, and those among them that are button clicks.\<close>

fun submit_event :: "event \<Rightarrow> bool" where
  "submit_event ClickRunAnalysis = True"
| "submit_event (KeyDownUrl key) = True"
| "submit_event ClickScanUrl = True"
| "submit_event ClickAnalyzeBulk = True"
| "submit_event ClickAnalyzeImage = True"
| "submit_event e = False"

fun submit_button :: "event \<Rightarrow> bool" where
  "submit_button ClickRunAnalysis = True"
| "submit_button ClickScanUrl = True"
| "submit_button ClickAnalyzeBulk = True"
| "submit_button ClickAnalyzeImage = True"
| "submit_button e = False"

text \<open>The continuations of a submission: its outstanding request, or the delay between
  its answer and the change of view.\<close>

fun is_submission :: "continuation \<Rightarrow> bool" where
  "is_submission (AnalyzeAwait scanInterval tok) = True"
| "is_submission (BulkAwait scanInterval) = True"
| "is_submission (ImageAwait scanInterval tok) = True"
| "is_submission (AnalyzeTimeout d tok) = True"
| "is_submission (BulkTimeout d) = True"
| "is_submission (ImageTimeout d tok) = True"
| "is_submission c = False"

definition in_flight :: "session \<Rightarrow> nat" where
  "in_flight s = length (filter is_submission (pending s))"

definition session_inv :: "session \<Rightarrow> bool" where
  "session_inv s =
     ((result s \<noteq> None \<longrightarrow> phase s = Verdict)
      \<and> (bulkResults s \<noteq> None \<longrightarrow> phase s = BulkResults)
      \<and> loading s = (phase s = Scanning)
      \<and> in_flight s = (if phase s = Scanning then 1 else 0))"

text \<open>
  A successful answer whose body is \<^verbatim>\<open>null\<close>, the events that deliver a submission
  anything else, and the sessions in which every stored or scheduled payload of a
  submission is an object.
\<close>

fun null_success :: "'a reply \<Rightarrow> bool" where
  "null_success (ReplyNull ok) = ok"
| "null_success rep = False"

fun object_answer :: "event \<Rightarrow> bool" where
  "object_answer (AnalyzeReplied i rep) = (\<not> null_success rep)"
| "object_answer (BulkReplied i rep) = (\<not> null_success rep)"
| "object_answer (ImageReplied i rep) = (\<not> null_success rep)"
| "object_answer e = True"

fun carries_object :: "continuation \<Rightarrow> bool" where
  "carries_object (AnalyzeTimeout d tok) = (d \<noteq> None)"
| "carries_object (BulkTimeout d) = (d \<noteq> None)"
| "carries_object (ImageTimeout d tok) = (d \<noteq> None)"
| "carries_object c = True"

definition payload_inv :: "session \<Rightarrow> bool" where
  "payload_inv s =
     ((phase s = Verdict \<longrightarrow> result s \<noteq> None)
      \<and> (phase s = BulkResults \<longrightarrow> bulkResults s \<noteq> None)
      \<and> list_all carries_object (pending s))"

text \<open>Once the continuation of the submission is taken off the list, none is left.\<close>

definition scanning_idle :: "session \<Rightarrow> bool" where
  "scanning_idle s =
     (phase s = Scanning \<and> result s = None \<and> bulkResults s = None \<and> loading s
      \<and> in_flight s = 0)"

subsection \<open>Sample sessions\<close>

definition demo_verdict :: verdict_result where
  "demo_verdict =
     \<lparr>prediction_id = Some 7, prediction = ''Fake'', confidence = 93,
      scraped_title = Some ''Data Entry Clerk'', scraped_company = Some ''Acme''\<rparr>"

definition demo_report :: bulk_report where
  "demo_report = \<lparr>total_analyzed = 100, total_real = 77, total_fake = 23\<rparr>"

text \<open>A text submission whose request is outstanding, after one tick.\<close>

definition demo_scanning :: session where
  "demo_scanning =
     run [ChangeJobText (js ''Senior Engineer role''), ClickRunAnalysis, TimerTick 0 (1 / 2)]
       (mount None)"

text \<open>Ten ticks that draw 0.75 and one that draws 0.875, all before any answer.\<close>

definition demo_overshoot :: session where
  "demo_overshoot =
     run ([ChangeJobText (js ''Senior Engineer role''), ClickRunAnalysis]
          @ replicate 10 (TimerTick 0 (3 / 4)) @ [TimerTick 0 (7 / 8)])
       (mount None)"

text \<open>The same submission, answered with a non-success response.\<close>

definition demo_failed :: session where
  "demo_failed =
     handle (AnalyzeReplied 0 (Reply False (Some ''Text too short'') demo_verdict))
       demo_scanning"

text \<open>A signed-in user gets a verdict for a URL and agrees with it.\<close>

definition demo_agreed :: session where
  "demo_agreed =
     run [ClickTab ModeUrl, ChangeUrl (js ''https://jobs.example/1''), KeyDownUrl ''Enter'',
          AnalyzeReplied 1 (Reply True None demo_verdict), TimeoutFired 1,
          ClickFeedback Agree, FeedbackReplied 3 (Status True)]
       (mount (Some ''tok''))"

text \<open>
  The same user clicks the second feedback button before the answer to the first click
  has arrived: the session after the first answer, and after the second.
\<close>

definition demo_feedback_first :: session where
  "demo_feedback_first =
     run [ClickTab ModeUrl, ChangeUrl (js ''https://jobs.example/1''), KeyDownUrl ''Enter'',
          AnalyzeReplied 1 (Reply True None demo_verdict), TimeoutFired 1,
          ClickFeedback Agree, ClickFeedback Disagree, FeedbackReplied 3 (Status True)]
       (mount (Some ''tok''))"

definition demo_feedback_race :: session where
  "demo_feedback_race = handle (FeedbackReplied 3 (Status True)) demo_feedback_first"

text \<open>A text submission that the backend answers with status 200 and the body
  \<^verbatim>\<open>null\<close>.\<close>

definition demo_null_verdict :: session where
  "demo_null_verdict =
     run [ChangeJobText (js ''Senior Engineer role''), ClickRunAnalysis,
          AnalyzeReplied 0 (ReplyNull True), TimeoutFired 0]
       (mount None)"

text \<open>A screenshot whose answer names a company.\<close>

definition demo_image :: session where
  "demo_image =
     run [ClickTab ModeImage, ChangeImage (Some (File ''shot.png'' ''PNG'')),
          ClickAnalyzeImage, ImageReplied 1 (Reply True None demo_verdict), TimeoutFired 1]
       (mount None)"

text \<open>A signed-in user with a CSV file selected.\<close>

definition demo_csv :: session where
  "demo_csv =
     run [ClickTab ModeCsv, ChangeCsv (Some (File ''jobs.csv'' ''text,label''))]
       (mount (Some ''tok''))"

section \<open>Properties\<close>

subsection \<open>Auxiliary facts\<close>

lemmas effect_defs = fetch_def setTimeout_def alert_def console_error_def
  throw_uncaught_def clearInterval_def setInterval_def

lemmas eval_defs = analyze_def analyze_reply_def analyze_timeout_def analyzeBulk_def
  analyzeBulk_reply_def analyzeBulk_timeout_def analyzeImage_def analyzeImage_reply_def
  analyzeImage_timeout_def downloadBulkCsv_def downloadBulkCsv_reply_def submitFeedback_def
  submitFeedback_reply_def flag_def flag_reply_def reset_def verifyCompany_def
  verifyCompany_reply_def fetchMyHistory_def fetchMyHistory_reply_def tick_def
  catch_block_def detail_or_def bearer_def truthy_def truthy_id_def trim_def is_ws_def
  take_pending_def remove_at_def verdict_view_def bulk_view_def mount_def initial_def
  js_def null_property_def effect_defs Let_def

lemma reset_fields:
  "phase (reset s) = Input" "result (reset s) = None" "bulkResults (reset s) = None"
  "scanProgress (reset s) = 0" "feedbackGiven (reset s) = None"
  "companyVerify (reset s) = None" "jobText (reset s) = []" "urlInput (reset s) = []"
  "csvFile (reset s) = None" "imageFile (reset s) = None" "imagePreview (reset s) = None"
  by (simp_all add: reset_def)

subsection \<open>Reset\<close>

text \<open>
  Claim C8. Whatever the session, \<^verbatim>\<open>reset()\<close> leaves the phase at \<open>Input\<close>, the result, the
  bulk report, the feedback state and the company verification null, the progress at 0,
  and the pending input (job text, URL, CSV file, image file) empty.
\<close>

theorem reset_yields_cleared_input_session:
  "phase (reset s) = Input \<and> result (reset s) = None \<and> bulkResults (reset s) = None
   \<and> scanProgress (reset s) = 0 \<and> feedbackGiven (reset s) = None
   \<and> companyVerify (reset s) = None
   \<and> pendingInput (reset s) = ([], [], None, None)"
  by (simp add: reset_fields pendingInput_def)

theorem reset_witness:
  "phase (reset demo_agreed) = Input \<and> result (reset demo_agreed) = None
   \<and> bulkResults (reset demo_agreed) = None
   \<and> scanProgress (reset demo_agreed) = 0 \<and> feedbackGiven (reset demo_agreed) = None
   \<and> companyVerify (reset demo_agreed) = None
   \<and> pendingInput (reset demo_agreed) = ([], [], None, None)"
  by (rule reset_yields_cleared_input_session)

subsection \<open>The bulk download\<close>

text \<open>
  Claim C9. \<^verbatim>\<open>downloadBulkCsv\<close> checks what \<^verbatim>\<open>analyzeBulk\<close> checks: for every selected
  file and credential it issues a request exactly when \<^verbatim>\<open>analyzeBulk\<close> does, which is
  when a CSV file is selected and the token is truthy; otherwise both do nothing.
\<close>

theorem download_validates_like_bulk_submit:
  "(issued s (downloadBulkCsv s) \<noteq> []) = (issued s (analyzeBulk s) \<noteq> [])
   \<and> (issued s (downloadBulkCsv s) \<noteq> []) = (csvFile s \<noteq> None \<and> truthy (token s))
   \<and> (\<not> (csvFile s \<noteq> None \<and> truthy (token s))
        \<longrightarrow> downloadBulkCsv s = s \<and> analyzeBulk s = s)"
  by (auto simp: issued_def downloadBulkCsv_def analyzeBulk_def effect_defs Let_def
      split: option.splits)

theorem download_validates_like_bulk_submit_witness:
  "\<not> (csvFile demo_agreed \<noteq> None \<and> truthy (token demo_agreed))
   \<and> downloadBulkCsv demo_agreed = demo_agreed \<and> analyzeBulk demo_agreed = demo_agreed
   \<and> issued demo_csv (downloadBulkCsv demo_csv) \<noteq> []
   \<and> issued demo_csv (analyzeBulk demo_csv) \<noteq> []"
proof -
  have none: "csvFile demo_agreed = None"
    by code_simp
  have some: "csvFile demo_csv \<noteq> None \<and> truthy (token demo_csv)"
    by code_simp
  have "downloadBulkCsv demo_agreed = demo_agreed \<and> analyzeBulk demo_agreed = demo_agreed"
    using none download_validates_like_bulk_submit [of demo_agreed] by simp
  moreover have "issued demo_csv (downloadBulkCsv demo_csv) \<noteq> []
      \<and> issued demo_csv (analyzeBulk demo_csv) \<noteq> []"
    using some download_validates_like_bulk_submit [of demo_csv] by blast
  ultimately show ?thesis
    using none by simp
qed

text \<open>
  Claim C10. Whatever response arrives for the download, successful or not, its body is
  saved as \<^verbatim>\<open>bulk_results.csv\<close> and nothing is shown to the user: \<^verbatim>\<open>res.ok\<close> is not
  read and no detail message of the backend is surfaced. The notice
  \<^verbatim>\<open>Download failed\<close> appears only when the request throws, and then nothing is saved.
\<close>

theorem download_saves_body_of_any_response:
  "downloads (downloadBulkCsv_reply (Blob ok body) s) = downloads s @ [(''bulk_results.csv'', body)]
   \<and> alerts (downloadBulkCsv_reply (Blob ok body) s) = alerts s
   \<and> downloads (downloadBulkCsv_reply BlobThrew s) = downloads s
   \<and> alerts (downloadBulkCsv_reply BlobThrew s) = alerts s @ [''Download failed'']"
  by (simp add: downloadBulkCsv_reply_def alert_def)

theorem download_saves_body_witness:
  "downloads (downloadBulkCsv_reply (Blob False ''{detail: Invalid token}'') (mount None))
     = [(''bulk_results.csv'', ''{detail: Invalid token}'')]
   \<and> alerts (downloadBulkCsv_reply (Blob False ''{detail: Invalid token}'') (mount None)) = []"
  using download_saves_body_of_any_response [of False "''{detail: Invalid token}''" "mount None"]
  by (simp add: mount_def initial_def truthy_def)

subsection \<open>The session invariant\<close>

lemma filter_remove_at:
  assumes "i < length xs"
  shows "length (filter P xs) = length (filter P (remove_at i xs)) + (if P (xs ! i) then 1 else 0)"
proof -
  from assms have "xs = take i xs @ xs ! i # drop (Suc i) xs"
    by (rule id_take_nth_drop)
  then have "filter P xs = filter P (take i xs @ xs ! i # drop (Suc i) xs)"
    by simp
  then show ?thesis
    by (simp add: remove_at_def)
qed

lemma take_pending_Some:
  assumes "take_pending i s = Some (c, s1)"
  shows "s1 = s\<lparr>pending := remove_at i (pending s)\<rparr>
         \<and> in_flight s = in_flight s1 + (if is_submission c then 1 else 0)"
proof -
  from assms have i: "i < length (pending s)" and c: "c = pending s ! i"
    and s1: "s1 = s\<lparr>pending := remove_at i (pending s)\<rparr>"
    by (auto simp: take_pending_def split: if_splits)
  from filter_remove_at [OF i, of is_submission] show ?thesis
    by (simp add: s1 c in_flight_def)
qed

lemma inv_taken:
  assumes "session_inv s" and "take_pending i s = Some (c, s1)"
  shows "(is_submission c \<longrightarrow> scanning_idle s1) \<and> (\<not> is_submission c \<longrightarrow> session_inv s1)"
  using assms(1) take_pending_Some [OF assms(2)]
  by (auto simp: session_inv_def scanning_idle_def in_flight_def split: if_splits)

lemmas inv_defs = session_inv_def in_flight_def effect_defs Let_def

lemma start_inv:
  assumes "session_inv s" and "phase s = Input"
  shows "session_inv (analyze s)" and "session_inv (analyzeBulk s)"
    and "session_inv (analyzeImage s)"
  using assms
  by (auto simp: analyze_def analyzeBulk_def analyzeImage_def inv_defs
      split: option.splits if_splits)

lemma side_inv:
  assumes "session_inv s"
  shows "session_inv (verifyCompany v s)" and "session_inv (submitFeedback fb s)"
    and "session_inv (flag s)" and "session_inv (downloadBulkCsv s)"
    and "session_inv (tick t k r s)" and "session_inv (fetchMyHistory tok s)"
  using assms
  by (auto simp: verifyCompany_def submitFeedback_def flag_def downloadBulkCsv_def tick_def
      fetchMyHistory_def inv_defs split: option.splits if_splits)

lemma reset_inv:
  "session_inv s \<Longrightarrow> phase s = Verdict \<or> phase s = BulkResults \<Longrightarrow> session_inv (reset s)"
  by (auto simp: reset_def inv_defs split: if_splits)

lemma update_inv:
  assumes "session_inv s"
  shows "session_inv (s\<lparr>inputMode := a\<rparr>)" and "session_inv (s\<lparr>jobText := b\<rparr>)"
    and "session_inv (s\<lparr>urlInput := b\<rparr>)" and "session_inv (s\<lparr>csvFile := c\<rparr>)"
    and "session_inv (s\<lparr>imagePreview := d\<rparr>)" and "session_inv (s\<lparr>token := d\<rparr>)"
    and "session_inv (s\<lparr>imageFile := c, pending := pending s @ [PreviewAwait]\<rparr>)"
  using assms by (auto simp: inv_defs split: if_splits)

lemma submission_reply_inv:
  assumes "scanning_idle s"
  shows "session_inv (analyze_reply t tok rep s)"
    and "session_inv (analyzeBulk_reply t rep2 s)"
    and "session_inv (analyzeImage_reply t tok rep s)"
    and "session_inv (analyze_timeout d tok s)"
    and "session_inv (analyzeBulk_timeout d2 s)"
    and "session_inv (analyzeImage_timeout d tok s)"
  using assms
  by (auto simp: scanning_idle_def analyze_reply_def analyzeBulk_reply_def
      analyzeImage_reply_def analyze_timeout_def analyzeBulk_timeout_def
      analyzeImage_timeout_def catch_block_def fetchMyHistory_def verifyCompany_def inv_defs
      split: reply.splits option.splits if_splits)

lemma side_reply_inv:
  assumes "session_inv s"
  shows "session_inv (downloadBulkCsv_reply b s)"
    and "session_inv (verifyCompany_reply c s)"
    and "session_inv (submitFeedback_reply fb st s)"
    and "session_inv (flag_reply st s)"
    and "session_inv (fetchMyHistory_reply h s)"
  using assms
  by (auto simp: downloadBulkCsv_reply_def verifyCompany_reply_def submitFeedback_reply_def
      flag_reply_def fetchMyHistory_reply_def inv_defs
      split: reply.splits blob_reply.splits status_reply.splits option.splits if_splits)

lemma handle_inv:
  assumes "session_inv s"
  shows "session_inv (handle e s)"
proof -
  note tk = inv_taken [OF assms]
  note rp = submission_reply_inv side_reply_inv update_inv
  show ?thesis
  proof (cases e)
    case (AnalyzeReplied i rep)
    then show ?thesis using assms
      by (auto simp: rp split: option.splits continuation.splits dest!: tk)
  next
    case (BulkReplied i rep)
    then show ?thesis using assms
      by (auto simp: rp split: option.splits continuation.splits dest!: tk)
  next
    case (ImageReplied i rep)
    then show ?thesis using assms
      by (auto simp: rp split: option.splits continuation.splits dest!: tk)
  next
    case (TimeoutFired i)
    then show ?thesis using assms
      by (auto simp: rp split: option.splits continuation.splits dest!: tk)
  next
    case (DownloadReplied i rep)
    then show ?thesis using assms
      by (auto simp: rp split: option.splits continuation.splits dest!: tk)
  next
    case (VerifyReplied i rep)
    then show ?thesis using assms
      by (auto simp: rp split: option.splits continuation.splits dest!: tk)
  next
    case (FeedbackReplied i rep)
    then show ?thesis using assms
      by (auto simp: rp split: option.splits continuation.splits dest!: tk)
  next
    case (FlagReplied i rep)
    then show ?thesis using assms
      by (auto simp: rp split: option.splits continuation.splits dest!: tk)
  next
    case (HistoryReplied i rep)
    then show ?thesis using assms
      by (auto simp: rp split: option.splits continuation.splits dest!: tk)
  next
    case (PreviewLoaded i url)
    then show ?thesis using assms
      by (auto simp: rp split: option.splits continuation.splits dest!: tk)
  next
    case (AuthChange tok)
    then show ?thesis using assms
      by (simp add: Let_def side_inv update_inv)
  qed (simp_all add: assms start_inv side_inv reset_inv update_inv verdict_view_def
        bulk_view_def split: option.splits)
qed

lemma mount_inv: "session_inv (mount tok)"
  by (simp add: mount_def initial_def fetchMyHistory_def inv_defs)

lemma run_inv: "session_inv s \<Longrightarrow> session_inv (run es s)"
  by (induction es arbitrary: s) (simp_all add: handle_inv)

lemma reachable_inv: "session_inv (run es (mount tok))"
  by (rule run_inv [OF mount_inv])

text \<open>As long as no successful answer to a submission has the body \<^verbatim>\<open>null\<close>, the
  payloads stored and scheduled are objects.\<close>

lemma list_all_remove_at: "list_all P xs \<Longrightarrow> list_all P (remove_at i xs)"
  by (auto simp: remove_at_def list_all_iff dest: in_set_takeD in_set_dropD)

lemma payload_taken:
  assumes "payload_inv s" and "take_pending i s = Some (c, s1)"
  shows "carries_object c \<and> payload_inv s1"
proof -
  from assms(2) have i: "i < length (pending s)" and c: "c = pending s ! i"
    and s1: "s1 = s\<lparr>pending := remove_at i (pending s)\<rparr>"
    by (auto simp: take_pending_def split: if_splits)
  from assms(1) have all: "list_all carries_object (pending s)"
    by (simp add: payload_inv_def)
  with i c have "carries_object c"
    by (simp add: list_all_length)
  moreover from all assms(1) have "payload_inv s1"
    by (simp add: s1 payload_inv_def list_all_remove_at)
  ultimately show ?thesis by simp
qed

lemmas pay_defs = payload_inv_def session_inv_def effect_defs Let_def

lemma start_payload:
  assumes "payload_inv s" and "phase s = Input"
  shows "payload_inv (analyze s)" and "payload_inv (analyzeBulk s)"
    and "payload_inv (analyzeImage s)"
  using assms
  by (auto simp: analyze_def analyzeBulk_def analyzeImage_def pay_defs
      split: option.splits if_splits)

lemma side_payload:
  assumes "payload_inv s"
  shows "payload_inv (verifyCompany v s)" and "payload_inv (submitFeedback fb s)"
    and "payload_inv (flag s)" and "payload_inv (downloadBulkCsv s)"
    and "payload_inv (tick t k r s)" and "payload_inv (fetchMyHistory tok s)"
    and "payload_inv (reset s)"
  using assms
  by (auto simp: verifyCompany_def submitFeedback_def flag_def downloadBulkCsv_def tick_def
      fetchMyHistory_def reset_def pay_defs split: option.splits if_splits)

lemma update_payload:
  assumes "payload_inv s"
  shows "payload_inv (s\<lparr>inputMode := a\<rparr>)" and "payload_inv (s\<lparr>jobText := b\<rparr>)"
    and "payload_inv (s\<lparr>urlInput := b\<rparr>)" and "payload_inv (s\<lparr>csvFile := c\<rparr>)"
    and "payload_inv (s\<lparr>imagePreview := d\<rparr>)" and "payload_inv (s\<lparr>token := d\<rparr>)"
    and "payload_inv (s\<lparr>imageFile := c, pending := pending s @ [PreviewAwait]\<rparr>)"
  using assms by (auto simp: pay_defs split: if_splits)

lemma submission_reply_payload:
  assumes "payload_inv s" and "phase s = Scanning"
  shows "\<not> null_success rep \<Longrightarrow> payload_inv (analyze_reply t tok rep s)"
    and "\<not> null_success rep2 \<Longrightarrow> payload_inv (analyzeBulk_reply t rep2 s)"
    and "\<not> null_success rep \<Longrightarrow> payload_inv (analyzeImage_reply t tok rep s)"
    and "d \<noteq> None \<Longrightarrow> payload_inv (analyze_timeout d tok s)"
    and "d2 \<noteq> None \<Longrightarrow> payload_inv (analyzeBulk_timeout d2 s)"
    and "d \<noteq> None \<Longrightarrow> payload_inv (analyzeImage_timeout d tok s)"
  using assms
  by (auto simp: analyze_reply_def analyzeBulk_reply_def analyzeImage_reply_def
      analyze_timeout_def analyzeBulk_timeout_def analyzeImage_timeout_def catch_block_def
      fetchMyHistory_def verifyCompany_def pay_defs
      split: reply.splits option.splits if_splits)

lemma side_reply_payload:
  assumes "payload_inv s"
  shows "payload_inv (downloadBulkCsv_reply b s)"
    and "payload_inv (verifyCompany_reply c s)"
    and "payload_inv (submitFeedback_reply fb st s)"
    and "payload_inv (flag_reply st s)"
    and "payload_inv (fetchMyHistory_reply h s)"
  using assms
  by (auto simp: downloadBulkCsv_reply_def verifyCompany_reply_def submitFeedback_reply_def
      flag_reply_def fetchMyHistory_reply_def pay_defs
      split: reply.splits blob_reply.splits status_reply.splits option.splits if_splits)

lemma handle_payload:
  assumes "session_inv s" and "payload_inv s" and "object_answer e"
  shows "payload_inv (handle e s)"
proof -
  have tk: "\<And>i c s1. take_pending i s = Some (c, s1) \<Longrightarrow>
      carries_object c \<and> payload_inv s1 \<and> (is_submission c \<longrightarrow> phase s1 = Scanning)"
    using payload_taken [OF assms(2)] inv_taken [OF assms(1)]
    by (auto simp: scanning_idle_def)
  note rp = submission_reply_payload side_reply_payload update_payload
  show ?thesis
  proof (cases e)
    case (AnalyzeReplied i rep)
    then show ?thesis using assms
      by (auto simp: rp split: option.splits continuation.splits dest!: tk)
  next
    case (BulkReplied i rep)
    then show ?thesis using assms
      by (auto simp: rp split: option.splits continuation.splits dest!: tk)
  next
    case (ImageReplied i rep)
    then show ?thesis using assms
      by (auto simp: rp split: option.splits continuation.splits dest!: tk)
  next
    case (TimeoutFired i)
    then show ?thesis using assms
      by (auto simp: rp split: option.splits continuation.splits dest!: tk)
  next
    case (DownloadReplied i rep)
    then show ?thesis using assms
      by (auto simp: rp split: option.splits continuation.splits dest!: tk)
  next
    case (VerifyReplied i rep)
    then show ?thesis using assms
      by (auto simp: rp split: option.splits continuation.splits dest!: tk)
  next
    case (FeedbackReplied i rep)
    then show ?thesis using assms
      by (auto simp: rp split: option.splits continuation.splits dest!: tk)
  next
    case (FlagReplied i rep)
    then show ?thesis using assms
      by (auto simp: rp split: option.splits continuation.splits dest!: tk)
  next
    case (HistoryReplied i rep)
    then show ?thesis using assms
      by (auto simp: rp split: option.splits continuation.splits dest!: tk)
  next
    case (PreviewLoaded i url)
    then show ?thesis using assms
      by (auto simp: rp split: option.splits continuation.splits dest!: tk)
  next
    case (AuthChange tok)
    then show ?thesis using assms
      by (simp add: Let_def side_payload update_payload)
  qed (simp_all add: assms start_payload side_payload update_payload verdict_view_def
        bulk_view_def split: option.splits)
qed

lemma mount_payload: "payload_inv (mount tok)"
  by (simp add: mount_def initial_def fetchMyHistory_def pay_defs)

lemma run_payload:
  "session_inv s \<Longrightarrow> payload_inv s \<Longrightarrow> list_all object_answer es \<Longrightarrow> payload_inv (run es s)"
  by (induction es arbitrary: s) (simp_all add: handle_inv handle_payload)

lemma reachable_payload: "list_all object_answer es \<Longrightarrow> payload_inv (run es (mount tok))"
  by (rule run_payload [OF mount_inv mount_payload])

text \<open>
  Claim C6, as the code has it. In every session that a sequence of events reaches from
  the first render, \<^verbatim>\<open>result\<close> is non-null only in phase \<open>Verdict\<close> and \<^verbatim>\<open>bulkResults\<close>
  only in phase \<open>BulkResults\<close>, so both are null in the phases \<open>Input\<close> and
  \<open>Scanning\<close>. The other direction holds as long as no successful answer to a submission
  had the body \<^verbatim>\<open>null\<close>: then \<^verbatim>\<open>result\<close> is non-null exactly in phase \<open>Verdict\<close> and
  \<^verbatim>\<open>bulkResults\<close> exactly in phase \<open>BulkResults\<close>.
\<close>

theorem result_and_report_follow_phase:
  "(result (run es (mount tok)) \<noteq> None \<longrightarrow> phase (run es (mount tok)) = Verdict)
   \<and> (bulkResults (run es (mount tok)) \<noteq> None \<longrightarrow> phase (run es (mount tok)) = BulkResults)
   \<and> (phase (run es (mount tok)) = Input \<or> phase (run es (mount tok)) = Scanning
        \<longrightarrow> result (run es (mount tok)) = None \<and> bulkResults (run es (mount tok)) = None)
   \<and> (list_all object_answer es
        \<longrightarrow> (result (run es (mount tok)) \<noteq> None) = (phase (run es (mount tok)) = Verdict)
          \<and> (bulkResults (run es (mount tok)) \<noteq> None)
              = (phase (run es (mount tok)) = BulkResults))"
proof -
  let ?s = "run es (mount tok)"
  have inv: "session_inv ?s"
    by (rule reachable_inv)
  have r: "result ?s \<noteq> None \<longrightarrow> phase ?s = Verdict"
    using inv unfolding session_inv_def by (rule conjunct1)
  have b: "bulkResults ?s \<noteq> None \<longrightarrow> phase ?s = BulkResults"
    using inv unfolding session_inv_def by (elim conjE)
  have early: "phase ?s = Input \<or> phase ?s = Scanning
      \<longrightarrow> result ?s = None \<and> bulkResults ?s = None"
    using r b by auto
  have full: "list_all object_answer es
      \<longrightarrow> (result ?s \<noteq> None) = (phase ?s = Verdict)
        \<and> (bulkResults ?s \<noteq> None) = (phase ?s = BulkResults)"
  proof
    assume "list_all object_answer es"
    then have p: "payload_inv ?s"
      by (rule reachable_payload)
    have "phase ?s = Verdict \<longrightarrow> result ?s \<noteq> None"
      using p unfolding payload_inv_def by (rule conjunct1)
    moreover have "phase ?s = BulkResults \<longrightarrow> bulkResults ?s \<noteq> None"
      using p unfolding payload_inv_def by (elim conjE)
    ultimately show "(result ?s \<noteq> None) = (phase ?s = Verdict)
        \<and> (bulkResults ?s \<noteq> None) = (phase ?s = BulkResults)"
      using r b by blast
  qed
  from r b early full show ?thesis
    by (intro conjI)
qed

theorem result_and_report_follow_phase_witness:
  "phase demo_image = Verdict \<and> result demo_image \<noteq> None \<and> bulkResults demo_image = None
   \<and> phase demo_failed = Input \<and> result demo_failed = None \<and> bulkResults demo_failed = None"
proof -
  let ?img = "[ClickTab ModeImage, ChangeImage (Some (File ''shot.png'' ''PNG'')),
               ClickAnalyzeImage, ImageReplied 1 (Reply True None demo_verdict), TimeoutFired 1]"
  let ?es = "[ChangeJobText (js ''Senior Engineer role''), ClickRunAnalysis, TimerTick 0 (1 / 2),
              AnalyzeReplied 0 (Reply False (Some ''Text too short'') demo_verdict)]"
  have img: "demo_image = run ?img (mount None)"
    by (simp only: demo_image_def)
  have run: "demo_failed = run ?es (mount None)"
    by (simp only: demo_failed_def demo_scanning_def run.simps)
  have obj: "list_all object_answer ?img"
    by code_simp
  have v: "phase demo_image = Verdict"
    by code_simp
  have i: "phase demo_failed = Input"
    by code_simp
  note at_image = result_and_report_follow_phase [of ?img None, folded img]
  note at_failed = result_and_report_follow_phase [of ?es None, folded run]
  from at_image obj v have "result demo_image \<noteq> None \<and> bulkResults demo_image = None"
    by (metis phase.distinct(11))
  moreover from at_failed i have "result demo_failed = None \<and> bulkResults demo_failed = None"
    by blast
  ultimately show ?thesis
    using v i by blast
qed

text \<open>
  A text submission answered with status 200 and the body \<^verbatim>\<open>null\<close> ends in phase
  \<open>Verdict\<close> with \<^verbatim>\<open>result\<close> null; the callback then throws at
  \<^verbatim>\<open>data.scraped_company\<close>.
\<close>

theorem null_body_verdict_counterexample:
  "phase demo_null_verdict = Verdict \<and> result demo_null_verdict = None
   \<and> loading demo_null_verdict = False
   \<and> uncaught demo_null_verdict = [null_property ''scraped_company'']"
  by (simp add: demo_null_verdict_def eval_defs)

subsection \<open>Single flight\<close>

lemma issued_self: "issued s s = []"
  by (simp add: issued_def)

lemma no_predict_while_scanning:
  assumes "phase s = Scanning"
  shows "filter is_predict (issued s (handle e s)) = []"
  using assms
  by (cases e)
    (auto simp: issued_def take_pending_def verdict_view_def bulk_view_def
      analyze_reply_def analyzeBulk_reply_def analyzeImage_reply_def analyze_timeout_def
      analyzeBulk_timeout_def analyzeImage_timeout_def catch_block_def
      downloadBulkCsv_reply_def verifyCompany_reply_def submitFeedback_reply_def
      flag_reply_def fetchMyHistory_reply_def fetchMyHistory_def verifyCompany_def tick_def
      effect_defs Let_def
      split: option.splits continuation.splits reply.splits blob_reply.splits
        status_reply.splits)

text \<open>
  Claim C1. The guard against a second submission is the rendered page: in phase
  \<open>Scanning\<close> no control that starts a submission is rendered, and the submit buttons are
  disabled while \<^verbatim>\<open>loading\<close> is set. So while a request is outstanding an attempt to
  submit is a no-op, the session is unchanged, and no event at all issues a submission
  request; in every reachable session \<^verbatim>\<open>loading\<close> is set exactly in phase \<open>Scanning\<close>.
\<close>

theorem no_submission_through_page_while_scanning:
  "(phase s = Scanning \<and> submit_event e \<longrightarrow> handle e s = s)
   \<and> (loading s \<and> submit_button e \<longrightarrow> handle e s = s)
   \<and> (phase s = Scanning \<longrightarrow> filter is_predict (issued s (handle e s)) = [])
   \<and> loading (run es (mount tok)) = (phase (run es (mount tok)) = Scanning)"
proof -
  have "phase s = Scanning \<Longrightarrow> submit_event e \<Longrightarrow> handle e s = s"
    by (cases e) simp_all
  moreover have "loading s \<Longrightarrow> submit_button e \<Longrightarrow> handle e s = s"
    by (cases e) simp_all
  moreover have "loading (run es (mount tok)) = (phase (run es (mount tok)) = Scanning)"
    using reachable_inv [of es tok] by (simp add: session_inv_def)
  ultimately show ?thesis
    using no_predict_while_scanning [of s e] by blast
qed

theorem no_submission_through_page_witness:
  "phase demo_scanning = Scanning \<and> loading demo_scanning
   \<and> handle ClickRunAnalysis demo_scanning = demo_scanning
   \<and> handle (KeyDownUrl ''Enter'') demo_scanning = demo_scanning
   \<and> filter is_predict (issued demo_scanning (handle ClickRunAnalysis demo_scanning)) = []"
proof -
  have "phase demo_scanning = Scanning \<and> loading demo_scanning"
    by code_simp
  then show ?thesis
    using no_submission_through_page_while_scanning [of demo_scanning ClickRunAnalysis "[]" None]
      no_submission_through_page_while_scanning [of demo_scanning "KeyDownUrl ''Enter''" "[]" None]
    by simp
qed

subsection \<open>The progress simulator\<close>

text \<open>What the updater does guarantee: a value below \<open>95 + k\<close> stays below it.\<close>

lemma tick_bound:
  assumes "0 \<le> r" and "r < 1" and "0 \<le> k" and "scanProgress s < 95 + k"
  shows "scanProgress (tick t k r s) < 95 + k"
proof -
  have "r * k \<le> 1 * k" using assms by (intro mult_right_mono) auto
  then show ?thesis using assms by (auto simp: tick_def clearInterval_def)
qed

text \<open>
  Claim C2 says that the progress stays below 100 until an answer arrives. The updater
  compares the old value with 95 and adds the increment without clamping the sum, so
  from 90 a draw of 0.875 gives 100.5 while the request is still outstanding.
\<close>

theorem progress_reaches_100_before_any_answer:
  "phase demo_overshoot = Scanning \<and> pending demo_overshoot = [AnalyzeAwait 0 None]
   \<and> scanProgress demo_overshoot = 201 / 2 \<and> 100 \<le> scanProgress demo_overshoot"
  by code_simp

text \<open>The same session read against the bound of the claim.\<close>

theorem progress_reaches_100_witness:
  "\<not> scanProgress demo_overshoot < 100"
  using progress_reaches_100_before_any_answer by simp


subsection \<open>Failure of a submission\<close>

lemma catch_block_fields:
  "phase (catch_block t m s) = Input" "loading (catch_block t m s) = False"
  "alerts (catch_block t m s) = alerts s @ [m]"
  "scanProgress (catch_block t m s) = scanProgress s"
  "pendingInput (catch_block t m s) = pendingInput s"
  "requests (catch_block t m s) = requests s"
  by (simp_all add: catch_block_def alert_def clearInterval_def pendingInput_def)

lemma catch_block_timer: "map_of (timers (catch_block t m s)) t = None"
  by (auto simp: catch_block_def alert_def clearInterval_def map_of_eq_None_iff)

lemma failed_reply:
  "failed rep \<Longrightarrow> analyze_reply t tok rep s = catch_block t (failure_message ''Analysis failed'' rep) s"
  "failed rep \<Longrightarrow> analyzeImage_reply t tok rep s = catch_block t (failure_message ''Image analysis failed'' rep) s"
  "failed rep2 \<Longrightarrow> analyzeBulk_reply t rep2 s = catch_block t (failure_message ''Bulk analysis failed'' rep2) s"
  by (cases rep; cases rep2; simp add: analyze_reply_def analyzeImage_reply_def analyzeBulk_reply_def)+

text \<open>
  Claim C3, as the code has it. When a submission fails, the \<^verbatim>\<open>catch\<close> block cancels the
  timer of that submission and does not write \<^verbatim>\<open>scanProgress\<close>: the progress keeps the
  value it had, and is 0 again as soon as the next submission is accepted.
\<close>

theorem failure_cancels_timer_and_leaves_progress:
  assumes "failed rep" and "failed rep2"
  shows "map_of (timers (analyze_reply t tok rep s)) t = None
         \<and> scanProgress (analyze_reply t tok rep s) = scanProgress s
         \<and> map_of (timers (analyzeBulk_reply t rep2 s)) t = None
         \<and> scanProgress (analyzeBulk_reply t rep2 s) = scanProgress s
         \<and> map_of (timers (analyzeImage_reply t tok rep s)) t = None
         \<and> scanProgress (analyzeImage_reply t tok rep s) = scanProgress s
         \<and> (analyze s \<noteq> s \<longrightarrow> scanProgress (analyze s) = 0)
         \<and> (analyzeBulk s \<noteq> s \<longrightarrow> scanProgress (analyzeBulk s) = 0)
         \<and> (analyzeImage s \<noteq> s \<longrightarrow> scanProgress (analyzeImage s) = 0)
         \<and> scanProgress (reset s) = 0"
proof -
  have "analyze s \<noteq> s \<longrightarrow> scanProgress (analyze s) = 0"
    by (simp add: analyze_def effect_defs Let_def)
  moreover have "analyzeBulk s \<noteq> s \<longrightarrow> scanProgress (analyzeBulk s) = 0"
    by (simp add: analyzeBulk_def effect_defs Let_def split: option.splits)
  moreover have "analyzeImage s \<noteq> s \<longrightarrow> scanProgress (analyzeImage s) = 0"
    by (simp add: analyzeImage_def effect_defs Let_def split: option.splits)
  ultimately show ?thesis
    using assms by (simp add: failed_reply catch_block_fields catch_block_timer reset_fields)
qed

theorem failure_cancels_timer_witness:
  "failed (Reply False (Some ''Text too short'') demo_verdict)
   \<and> map_of (timers demo_scanning) 0 = Some 12
   \<and> map_of (timers (analyze_reply 0 None (Reply False (Some ''Text too short'') demo_verdict)
         demo_scanning)) 0 = None
   \<and> scanProgress (analyze_reply 0 None (Reply False (Some ''Text too short'') demo_verdict)
         demo_scanning) = 6
   \<and> analyze demo_failed \<noteq> demo_failed \<and> scanProgress (analyze demo_failed) = 0"
proof -
  have f: "failed (Reply False (Some ''Text too short'') demo_verdict)" by simp
  have f2: "failed (Reply False (Some ''Not a CSV file'') demo_report)" by simp
  have "scanProgress demo_scanning = 6 \<and> map_of (timers demo_scanning) 0 = Some 12"
    by code_simp
  moreover have "next_timer (analyze demo_failed) \<noteq> next_timer demo_failed"
    by code_simp
  then have "analyze demo_failed \<noteq> demo_failed"
    by auto
  ultimately show ?thesis
    using failure_cancels_timer_and_leaves_progress [OF f f2, of 0 None demo_scanning]
      failure_cancels_timer_and_leaves_progress [OF f f2, of 0 None demo_failed]
    by simp
qed

text \<open>After one tick of 6 and a failed request the progress is 6, not 0.\<close>

theorem failure_resets_progress_counterexample:
  "phase demo_scanning = Scanning \<and> phase demo_failed = Input
   \<and> alerts demo_failed = [''Text too short''] \<and> timers demo_failed = []
   \<and> scanProgress demo_failed = 6 \<and> scanProgress demo_failed \<noteq> 0"
  by code_simp


subsection \<open>Feedback\<close>

text \<open>
  What the page does guarantee: once \<^verbatim>\<open>feedbackGiven\<close> is set, the thanks replace the two
  feedback buttons, and a click for feedback does nothing.
\<close>

lemma feedback_click_inert_once_given:
  "feedbackGiven s \<noteq> None \<Longrightarrow> handle (ClickFeedback fb) s = s"
  by (auto split: option.splits)

text \<open>
  Claim C4 says that feedback is submitted at most once per verdict. The buttons stay
  rendered and enabled until the answer to the first click arrives, and
  \<^verbatim>\<open>submitFeedback\<close> does not look at \<^verbatim>\<open>feedbackGiven\<close>. A user who clicks AGREE and then
  DISAGREE before that answer posts two feedback requests for prediction 7; the first
  answer sets \<^verbatim>\<open>feedbackGiven\<close> to agree and the second overwrites it with disagree.
\<close>

theorem feedback_submitted_twice_for_one_verdict:
  "phase demo_feedback_race = Verdict \<and> result demo_feedback_race = Some demo_verdict
   \<and> feedbackGiven demo_feedback_first = Some Agree
   \<and> feedbackGiven demo_feedback_race = Some Disagree
   \<and> filter is_feedback (requests demo_feedback_race)
       = [Feedback 7 Agree (Some ''tok''), Feedback 7 Disagree (Some ''tok'')]"
  by code_simp

text \<open>The feedback state that one succeeded submission had set is not the final one.\<close>

theorem feedback_submitted_twice_witness:
  "feedbackGiven demo_feedback_first \<noteq> None
   \<and> feedbackGiven demo_feedback_race \<noteq> feedbackGiven demo_feedback_first"
  using feedback_submitted_twice_for_one_verdict by simp

subsection \<open>After the verdict\<close>

text \<open>
  Claim C5, as the code has it. A successful text or URL submission schedules one callback;
  when the payload's \<^verbatim>\<open>scraped_company\<close> is a non-empty string the callback asks once for
  the verification of that name, and otherwise not at all. The callbacks of an image and
  of a bulk submission never ask for it.
\<close>

theorem company_verified_once_after_text_or_url_verdict:
  "pending (analyze_reply t tok (Reply True detail d) s)
     = pending s @ [AnalyzeTimeout (Some d) tok]
   \<and> (scraped_company d = Some c \<and> c \<noteq> []
      \<longrightarrow> filter is_verify (issued s (analyze_timeout (Some d) tok s)) = [VerifyCompany c])
   \<and> (\<not> truthy (scraped_company d)
      \<longrightarrow> filter is_verify (issued s (analyze_timeout (Some d) tok s)) = [])
   \<and> filter is_verify (issued s (analyze_timeout None tok s)) = []
   \<and> filter is_verify (issued s (analyzeImage_timeout d' tok s)) = []
   \<and> filter is_verify (issued s (analyzeBulk_timeout b s)) = []"
  by (auto simp: analyze_reply_def analyze_timeout_def analyzeImage_timeout_def
      analyzeBulk_timeout_def issued_def fetchMyHistory_def verifyCompany_def effect_defs Let_def truthy_def
      split: option.splits)

theorem company_verified_once_witness:
  "scraped_company demo_verdict = Some ''Acme''
   \<and> filter is_verify
         (issued demo_scanning (analyze_timeout (Some demo_verdict) None demo_scanning))
       = [VerifyCompany ''Acme'']"
proof -
  have "scraped_company demo_verdict = Some ''Acme'' \<and> ''Acme'' \<noteq> []"
    by (simp add: demo_verdict_def)
  then show ?thesis
    using company_verified_once_after_text_or_url_verdict
      [of 0 None None demo_verdict demo_scanning "''Acme''"]
    by simp
qed

text \<open>
  An image submission whose payload names a company reaches its verdict with the image
  request as the only request issued.
\<close>

theorem image_verdict_not_verified_counterexample:
  "phase demo_image = Verdict \<and> result demo_image = Some demo_verdict
   \<and> scraped_company demo_verdict = Some ''Acme''
   \<and> requests demo_image = [PredictImage (File ''shot.png'' ''PNG'') None]
   \<and> filter is_verify (requests demo_image) = []
   \<and> pending demo_image = [PreviewAwait]"
  by code_simp

subsection \<open>Retry after a failure\<close>

lemma start_keeps_input:
  "pendingInput (analyze s) = pendingInput s" "pendingInput (analyzeBulk s) = pendingInput s"
  "pendingInput (analyzeImage s) = pendingInput s" "pendingInput (tick t k r s) = pendingInput s"
  by (simp_all add: analyze_def analyzeBulk_def analyzeImage_def tick_def pendingInput_def
      effect_defs Let_def split: option.splits)

text \<open>
  Claim C7. When a submission fails, the phase is \<open>Input\<close> again, the message of the error
  is shown with \<^verbatim>\<open>alert\<close> (for a non-success response that carries a detail message, that
  message itself), and the pending input is what it was: neither the start of a
  submission, nor a tick, nor the failure writes the job text, the URL or a selected file.
\<close>

theorem failure_returns_to_input_keeps_pending_input:
  assumes "failed rep" and "failed rep2"
  shows "phase (analyze_reply t tok rep s) = Input
         \<and> alerts (analyze_reply t tok rep s) = alerts s @ [failure_message ''Analysis failed'' rep]
         \<and> pendingInput (analyze_reply t tok rep s) = pendingInput s
         \<and> phase (analyzeBulk_reply t rep2 s) = Input
         \<and> alerts (analyzeBulk_reply t rep2 s)
             = alerts s @ [failure_message ''Bulk analysis failed'' rep2]
         \<and> pendingInput (analyzeBulk_reply t rep2 s) = pendingInput s
         \<and> phase (analyzeImage_reply t tok rep s) = Input
         \<and> alerts (analyzeImage_reply t tok rep s)
             = alerts s @ [failure_message ''Image analysis failed'' rep]
         \<and> pendingInput (analyzeImage_reply t tok rep s) = pendingInput s
         \<and> (\<forall>m ok. m \<noteq> [] \<longrightarrow> failure_message dflt (Reply ok (Some m) d) = m)
         \<and> pendingInput (analyze s) = pendingInput s
         \<and> pendingInput (analyzeBulk s) = pendingInput s
         \<and> pendingInput (analyzeImage s) = pendingInput s
         \<and> pendingInput (tick t k r s) = pendingInput s"
  using assms by (simp add: failed_reply catch_block_fields start_keeps_input detail_or_def)

theorem failure_returns_to_input_witness:
  "failed (Reply False (Some ''Text too short'') demo_verdict)
   \<and> phase demo_failed = Input \<and> alerts demo_failed = [''Text too short'']
   \<and> pendingInput demo_failed = (js ''Senior Engineer role'', [], None, None)"
proof -
  have f: "failed (Reply False (Some ''Text too short'') demo_verdict)" by simp
  have f2: "failed (Reply False (Some ''Not a CSV file'') demo_report)" by simp
  have s: "pendingInput demo_scanning = (js ''Senior Engineer role'', [], None, None)
           \<and> alerts demo_scanning = []
           \<and> take_pending 0 demo_scanning
               = Some (AnalyzeAwait 0 None, demo_scanning\<lparr>pending := []\<rparr>)"
    by code_simp
  then have "demo_failed
      = analyze_reply 0 None (Reply False (Some ''Text too short'') demo_verdict)
          (demo_scanning\<lparr>pending := []\<rparr>)"
    by (simp add: demo_failed_def)
  then show ?thesis
    using s failure_returns_to_input_keeps_pending_input
      [OF f f2, of 0 None "demo_scanning\<lparr>pending := []\<rparr>" "''Analysis failed''" demo_verdict 12 0]
    by (simp add: pendingInput_def detail_or_def)
qed

end
